theory Spec2Isabelle
  imports Main "HOL-Library.Sublist"
begin

section \<open>The Python built-ins the inventory relies on\<close>

text \<open>
  The inventory module (\<^verbatim>\<open>PARCIAL 02/semana 10/inventario.py\<close> with
  \<^verbatim>\<open>PARCIAL 02/Semana 09/producto.py\<close>) uses a handful of operations of Python's
  \<^verbatim>\<open>str\<close>, \<^verbatim>\<open>int\<close> and \<^verbatim>\<open>float\<close>. They are modelled here on ASCII text: a
  \<^typ>\<open>string\<close> is a list of ASCII code units, and a character outside ASCII is treated
  as a caseless, non-blank symbol.
\<close>

subsection \<open>Characters\<close>

definition mayusculas :: string where
  "mayusculas = ''ABCDEFGHIJKLMNOPQRSTUVWXYZ''"

definition minusculas :: string where
  "minusculas = ''abcdefghijklmnopqrstuvwxyz''"

definition cifras :: string where
  "cifras = ''0123456789''"

text \<open>\<^verbatim>\<open>str.isspace\<close> on ASCII: TAB, LF, VT, FF, CR, the separators 0x1C..0x1F and the space.\<close>

definition isspace :: "char \<Rightarrow> bool" where
  "isspace c = (c \<in> set [CHR 0x09, CHR 0x0A, CHR 0x0B, CHR 0x0C, CHR 0x0D,
                          CHR 0x1C, CHR 0x1D, CHR 0x1E, CHR 0x1F, CHR '' ''])"

definition isdigit :: "char \<Rightarrow> bool" where
  "isdigit c = (c \<in> set cifras)"


definition is_cased :: "char \<Rightarrow> bool" where
  "is_cased c = (c \<in> set mayusculas \<or> c \<in> set minusculas)"

definition lower_char :: "char \<Rightarrow> char" where
  "lower_char c = (case map_of (zip mayusculas minusculas) c of Some d \<Rightarrow> d | None \<Rightarrow> c)"

definition upper_char :: "char \<Rightarrow> char" where
  "upper_char c = (case map_of (zip minusculas mayusculas) c of Some d \<Rightarrow> d | None \<Rightarrow> c)"

subsection \<open>\<^verbatim>\<open>str.strip\<close>, \<^verbatim>\<open>str.lower\<close>, \<^verbatim>\<open>str.title\<close>, \<^verbatim>\<open>str.split\<close>, \<^verbatim>\<open>in\<close>\<close>

definition py_strip :: "string \<Rightarrow> string" where
  "py_strip s = rev (dropWhile isspace (rev (dropWhile isspace s)))"

text \<open>
  \<^verbatim>\<open>int\<close> and \<^verbatim>\<open>float\<close> skip blanks with the C macro \<^verbatim>\<open>Py_ISSPACE\<close>, which on ASCII
  is TAB, LF, VT, FF, CR and the space only.
\<close>

definition Py_ISSPACE :: "char \<Rightarrow> bool" where
  "Py_ISSPACE c = (c \<in> set [CHR 0x09, CHR 0x0A, CHR 0x0B, CHR 0x0C, CHR 0x0D, CHR '' ''])"

definition quitar_blancos :: "string \<Rightarrow> string" where
  "quitar_blancos s = rev (dropWhile Py_ISSPACE (rev (dropWhile Py_ISSPACE s)))"

definition py_lower :: "string \<Rightarrow> string" where
  "py_lower s = map lower_char s"

text \<open>
  \<^verbatim>\<open>str.title\<close>: a character is upper-cased when the character before it is not a cased
  one, and lower-cased otherwise. The flag is \<^verbatim>\<open>previous_is_cased\<close> of the interpreter's
  loop.
\<close>

fun title_desde :: "bool \<Rightarrow> string \<Rightarrow> string" where
  "title_desde previous_is_cased [] = []"
| "title_desde previous_is_cased (c # cs) =
     (if previous_is_cased then lower_char c else upper_char c) # title_desde (is_cased c) cs"

definition py_title :: "string \<Rightarrow> string" where
  "py_title s = title_desde False s"

text \<open>\<^verbatim>\<open>s.split(sep)\<close> for a separator of one character: never an empty list.\<close>

fun py_split :: "char \<Rightarrow> string \<Rightarrow> string list" where
  "py_split sep [] = [[]]"
| "py_split sep (c # cs) =
     (if c = sep then [] # py_split sep cs
      else (case py_split sep cs of [] \<Rightarrow> [[c]] | p # ps \<Rightarrow> (c # p) # ps))"

text \<open>\<^verbatim>\<open>t in s\<close> on strings: \<open>t\<close> occurs in \<open>s\<close> as a contiguous piece.\<close>

fun py_in :: "string \<Rightarrow> string \<Rightarrow> bool" where
  "py_in t [] = (t = [])"
| "py_in t (c # cs) = (prefix t (c # cs) \<or> py_in t cs)"

subsection \<open>\<^verbatim>\<open>str\<close> and \<^verbatim>\<open>int\<close> on integers\<close>

definition cifra :: "nat \<Rightarrow> char" where
  "cifra n = cifras ! n"

definition valor_cifra :: "char \<Rightarrow> nat" where
  "valor_cifra c = length (takeWhile (\<lambda>d. d \<noteq> c) cifras)"

fun digitos :: "nat \<Rightarrow> string" where
  "digitos n = (if n < 10 then [cifra n] else digitos (n div 10) @ [cifra (n mod 10)])"

declare digitos.simps [simp del]

definition str_int :: "int \<Rightarrow> string" where
  "str_int i = (if i < 0 then CHR ''-'' # digitos (nat (- i)) else digitos (nat i))"

definition valor_decimal :: "string \<Rightarrow> nat" where
  "valor_decimal ds = foldl (\<lambda>a c. 10 * a + valor_cifra c) 0 ds"

text \<open>
  A run of decimal digits in which single underscores may stand between two digits
  (\<^verbatim>\<open>1_000\<close>); the result is the run without the underscores, \<open>None\<close> when the text
  is not of that form.
\<close>

fun grupo_digitos :: "string \<Rightarrow> string option" where
  "grupo_digitos [] = None"
| "grupo_digitos [c] = (if isdigit c then Some [c] else None)"
| "grupo_digitos (c # d # cs) =
     (if \<not> isdigit c then None
      else if d = CHR ''_'' then map_option ((#) c) (grupo_digitos cs)
      else map_option ((#) c) (grupo_digitos (d # cs)))"

text \<open>An optional sign in front of the rest: the flag says whether it was a minus.\<close>

definition quitar_signo :: "string \<Rightarrow> bool \<times> string" where
  "quitar_signo s =
     (case s of [] \<Rightarrow> (False, [])
      | c # cs \<Rightarrow> if c = CHR ''-'' then (True, cs)
                  else if c = CHR ''+'' then (False, cs) else (False, s))"

text \<open>
  \<^verbatim>\<open>int(s)\<close> in base ten: blanks around, an optional sign, a group of digits.
  \<open>None\<close> is the \<^verbatim>\<open>ValueError\<close>.
\<close>

definition py_int :: "string \<Rightarrow> int option" where
  "py_int s =
     (case quitar_signo (quitar_blancos s) of
        (neg, u) \<Rightarrow>
          map_option (\<lambda>ds. if neg then - int (valor_decimal ds) else int (valor_decimal ds))
            (grupo_digitos u))"

subsection \<open>Floating-point values, their text and their parsing\<close>

text \<open>
  The program never computes with a price: it compares it with zero, prints it and reads
  it back. A float is therefore represented by what the interpreter's shortest-digits
  conversion yields for it: a sign, the significant decimal digits and the position
  \<open>decpt\<close> of the decimal point (the value is \<open>0.d\<^sub>1d\<^sub>2\<dots>d\<^sub>n \<times> 10\<^bsup>decpt\<^esup>\<close>), or an infinity,
  or not-a-number. Zero is the digit \<open>0\<close> with \<open>decpt = 1\<close>. Rounding to binary and
  overflow are outside the model: every finite decimal is a value.
\<close>

datatype pyfloat = Finito bool string int | Infinito bool | NaN


text \<open>\<^verbatim>\<open>x < 0\<close> and \<^verbatim>\<open>x >= 0\<close>: both are false of not-a-number, and minus zero is not below zero.\<close>

definition menor_que_cero :: "pyfloat \<Rightarrow> bool" where
  "menor_que_cero x =
     (case x of Finito s ds decpt \<Rightarrow> s \<and> ds \<noteq> ''0'' | Infinito s \<Rightarrow> s | NaN \<Rightarrow> False)"


definition signo :: "bool \<Rightarrow> string" where
  "signo s = (if s then ''-'' else [])"

text \<open>The exponent of the scientific form: a sign and at least two digits.\<close>

definition exponente :: "int \<Rightarrow> string" where
  "exponente e =
     (if e < 0 then CHR ''-'' else CHR ''+'') #
     (let d = digitos (nat \<bar>e\<bar>) in if length d < 2 then CHR ''0'' # d else d)"

text \<open>
  \<^verbatim>\<open>str(x)\<close> of a float, which is its \<^verbatim>\<open>repr\<close>: scientific form when \<open>decpt \<le> -4\<close> or
  \<open>decpt > 16\<close>, positional form otherwise, with \<^verbatim>\<open>.0\<close> added to a whole number.
\<close>

definition str_float :: "pyfloat \<Rightarrow> string" where
  "str_float x =
     (case x of
        NaN \<Rightarrow> ''nan''
      | Infinito s \<Rightarrow> signo s @ ''inf''
      | Finito s ds decpt \<Rightarrow>
          signo s @
          (if decpt \<le> - 4 \<or> decpt > 16 then
             hd ds # (if tl ds = [] then [] else CHR ''.'' # tl ds) @
             CHR ''e'' # exponente (decpt - 1)
           else if decpt \<le> 0 then ''0.'' @ replicate (nat (- decpt)) (CHR ''0'') @ ds
           else if nat decpt < length ds then
             take (nat decpt) ds @ CHR ''.'' # drop (nat decpt) ds
           else ds @ replicate (nat decpt - length ds) (CHR ''0'') @ ''.0''))"

text \<open>A digit group that may also be empty (the part before or after the point).\<close>

definition grupo_opcional :: "string \<Rightarrow> string option" where
  "grupo_opcional s = (if s = [] then Some [] else grupo_digitos s)"

text \<open>The exponent part: empty, or \<^verbatim>\<open>e\<close>/\<^verbatim>\<open>E\<close> with an optional sign and a digit group.\<close>

definition leer_exponente :: "string \<Rightarrow> int option" where
  "leer_exponente r =
     (case r of [] \<Rightarrow> Some 0
      | e # r' \<Rightarrow>
          (case quitar_signo r' of
             (neg, u) \<Rightarrow>
               map_option (\<lambda>ds. if neg then - int (valor_decimal ds) else int (valor_decimal ds))
                 (grupo_digitos u)))"

text \<open>Digits and point position brought to the shortest form (no zeros at either end).\<close>

definition normalizar :: "bool \<Rightarrow> string \<Rightarrow> int \<Rightarrow> pyfloat" where
  "normalizar neg ds decpt =
     (let z = length (takeWhile (\<lambda>c. c = CHR ''0'') ds);
          ds' = rev (dropWhile (\<lambda>c. c = CHR ''0'') (rev (drop z ds)))
      in if ds' = [] then Finito neg ''0'' 1 else Finito neg ds' (decpt - int z))"

definition no_es_e :: "char \<Rightarrow> bool" where
  "no_es_e c = (c \<noteq> CHR ''e'' \<and> c \<noteq> CHR ''E'')"

definition leer_decimal :: "bool \<Rightarrow> string \<Rightarrow> pyfloat option" where
  "leer_decimal neg u =
     (let m = takeWhile no_es_e u;
          r = dropWhile no_es_e u;
          ent = takeWhile (\<lambda>c. c \<noteq> CHR ''.'') m;
          p = dropWhile (\<lambda>c. c \<noteq> CHR ''.'') m;
          frac = (if p = [] then [] else tl p)
      in if ent = [] \<and> frac = [] then None
         else (case (grupo_opcional ent, grupo_opcional frac, leer_exponente r) of
                 (Some a, Some b, Some e) \<Rightarrow> Some (normalizar neg (a @ b) (int (length a) + e))
               | _ \<Rightarrow> None))"

text \<open>
  \<^verbatim>\<open>float(s)\<close>: blanks around, an optional sign, then \<^verbatim>\<open>inf\<close>, \<^verbatim>\<open>infinity\<close> or
  \<^verbatim>\<open>nan\<close> in any case, or a decimal number with an optional exponent. \<open>None\<close> is the
  \<^verbatim>\<open>ValueError\<close>.
\<close>

definition py_float :: "string \<Rightarrow> pyfloat option" where
  "py_float s =
     (case quitar_signo (quitar_blancos s) of
        (neg, u) \<Rightarrow>
          if py_lower u = ''inf'' \<or> py_lower u = ''infinity'' then Some (Infinito neg)
          else if py_lower u = ''nan'' then Some NaN
          else leer_decimal neg u)"

section \<open>Producto\<close>

text \<open>
  \<^verbatim>\<open>producto.py\<close>. The three \<^verbatim>\<open>raise ValueError(...)\<close> of the constructor and the
  two of the setters are told apart by their reason.
\<close>

datatype motivo = IdNoPositivo | CantidadNegativa | PrecioNegativo | NoEstaEnLista

datatype excepcion = ValueError motivo

record producto =
  id_producto :: int
  nombre :: string
  cantidad :: int
  precio :: pyfloat

text \<open>\<^verbatim>\<open>Producto.__init__\<close>: the fields of the new object, or the exception raised.\<close>

definition Producto_init :: "int \<Rightarrow> string \<Rightarrow> int \<Rightarrow> pyfloat \<Rightarrow> excepcion + producto" where
  "Producto_init i n c p =
     (if i \<le> 0 then Inl (ValueError IdNoPositivo)
      else if c < 0 then Inl (ValueError CantidadNegativa)
      else if menor_que_cero p then Inl (ValueError PrecioNegativo)
      else Inr \<lparr>id_producto = i, nombre = py_title (py_strip n), cantidad = c, precio = p\<rparr>)"

text \<open>The setters of \<^verbatim>\<open>cantidad\<close> and \<^verbatim>\<open>precio\<close>; \<^verbatim>\<open>id\<close> and \<^verbatim>\<open>nombre\<close> have none.\<close>

definition cantidad_setter :: "int \<Rightarrow> producto \<Rightarrow> excepcion + producto" where
  "cantidad_setter nueva_cantidad p =
     (if nueva_cantidad < 0 then Inl (ValueError CantidadNegativa)
      else Inr (p\<lparr>cantidad := nueva_cantidad\<rparr>))"

definition precio_setter :: "pyfloat \<Rightarrow> producto \<Rightarrow> excepcion + producto" where
  "precio_setter nuevo_precio p =
     (if menor_que_cero nuevo_precio then Inl (ValueError PrecioNegativo)
      else Inr (p\<lparr>precio := nuevo_precio\<rparr>))"

section \<open>Inventario\<close>

text \<open>
  \<^verbatim>\<open>inventario.py\<close> (semana 10). \<^verbatim>\<open>_productos\<close> and \<^verbatim>\<open>_indice_por_id\<close> hold
  references to the same \<^verbatim>\<open>Producto\<close> objects, and the setters mutate an object in
  place, so the objects live in an explicit store: a reference is an index into
  \<open>objetos\<close>, a new object is appended, and \<^verbatim>\<open>==\<close> on products (the class defines no
  \<^verbatim>\<open>__eq__\<close>) is equality of references. The state also carries the contents of
  \<^verbatim>\<open>inventario.txt\<close> (\<open>None\<close> when the file does not exist) and what was printed.

  Whether the operating system lets a file be opened, read or written is not decided by
  the program: each operation that uses the file takes the outcome as an argument,
  \<open>None\<close> for success or the error raised.
\<close>

type_synonym ref = nat

datatype fallo = PermissionError | OSError

datatype momento = AlAbrir | AlEscribir nat

datatype mensaje =
    InfoArchivoNoEncontrado
  | InfoArchivoCreado
  | ErrorSinPermisoCrear
  | ErrorCrear
  | ErrorSinPermisoLectura
  | ErrorLectura
  | AdvFormatoIncorrecto nat string
  | AdvIdDuplicado nat int
  | AdvDatosInvalidos nat
  | InfoCargados nat
  | InfoSinProductos
  | ErrorSinPermisoEscritura
  | ErrorGuardar
  | ErrorIdExistente int
  | OkAgregado string int
  | ErrorNoEncontrado int
  | OkEliminado string int
  | OkCantidad ref
  | OkPrecio ref
  | ErrorCantidadInvalida
  | ErrorPrecioInvalido

record mundo =
  objetos :: "producto list"
  productos :: "ref list"
  indice_por_id :: "int \<Rightarrow> ref option"
  archivo :: "string option"
  consola :: "mensaje list"

definition SEPARADOR :: char where
  "SEPARADOR = CHR ''|''"

definition print :: "mensaje \<Rightarrow> mundo \<Rightarrow> mundo" where
  "print m w = w\<lparr>consola := consola w @ [m]\<rparr>"

text \<open>Allocation of a new object: its reference and the store with it.\<close>

definition nuevo :: "producto \<Rightarrow> mundo \<Rightarrow> ref \<times> mundo" where
  "nuevo p w = (length (objetos w), w\<lparr>objetos := objetos w @ [p]\<rparr>)"

text \<open>The call \<^verbatim>\<open>Producto(i, n, c, p)\<close>: validation, then allocation.\<close>

definition Producto :: "int \<Rightarrow> string \<Rightarrow> int \<Rightarrow> pyfloat \<Rightarrow> mundo \<Rightarrow> (excepcion + ref) \<times> mundo" where
  "Producto i n c p w =
     (case Producto_init i n c p of
        Inl e \<Rightarrow> (Inl e, w)
      | Inr obj \<Rightarrow> (case nuevo obj w of (r, w') \<Rightarrow> (Inr r, w')))"

subsection \<open>Persistence\<close>

text \<open>One line of the file: the four fields, the separator between them, a line feed.\<close>

definition linea_de :: "producto \<Rightarrow> string" where
  "linea_de p =
     str_int (id_producto p) @ [SEPARADOR] @ nombre p @ [SEPARADOR] @
     str_int (cantidad p) @ [SEPARADOR] @ str_float (precio p) @ [CHR 0x0A]"

text \<open>The whole snapshot: the lines of the products of the list, in order.\<close>

definition instantanea :: "mundo \<Rightarrow> string" where
  "instantanea w = concat (map (\<lambda>r. linea_de (objetos w ! r)) (productos w))"

text \<open>
  What a failed save leaves on disk. \<^verbatim>\<open>open(..., "w")\<close> truncates the file, so an error
  raised by \<^verbatim>\<open>open\<close> itself leaves the file as it was, and an error raised later (while
  writing, flushing or closing) leaves the part of the snapshot that had reached the file:
  its first \<open>n\<close> characters.
\<close>

definition archivo_tras_fallo :: "momento \<Rightarrow> mundo \<Rightarrow> string option" where
  "archivo_tras_fallo m w =
     (case m of AlAbrir \<Rightarrow> archivo w | AlEscribir n \<Rightarrow> Some (take n (instantanea w)))"

text \<open>What \<^verbatim>\<open>_guardar_en_archivo\<close> prints in each of its two \<^verbatim>\<open>except\<close> clauses.\<close>

definition aviso_guardar :: "fallo \<Rightarrow> mensaje" where
  "aviso_guardar f = (case f of PermissionError \<Rightarrow> ErrorSinPermisoEscritura | OSError \<Rightarrow> ErrorGuardar)"

text \<open>
  \<^verbatim>\<open>_guardar_en_archivo\<close>: the outcome is \<open>None\<close> when the snapshot is written, or the
  error caught together with the moment it was raised. The method returns nothing in
  either case.
\<close>

definition guardar_en_archivo :: "(fallo \<times> momento) option \<Rightarrow> mundo \<Rightarrow> mundo" where
  "guardar_en_archivo es w =
     (case es of
        None \<Rightarrow> w\<lparr>archivo := Some (instantanea w)\<rparr>
      | Some (f, m) \<Rightarrow> print (aviso_guardar f) (w\<lparr>archivo := archivo_tras_fallo m w\<rparr>))"

definition crear_archivo_vacio :: "fallo option \<Rightarrow> mundo \<Rightarrow> mundo" where
  "crear_archivo_vacio es w =
     (case es of
        None \<Rightarrow> print InfoArchivoCreado (w\<lparr>archivo := Some []\<rparr>)
      | Some PermissionError \<Rightarrow> print ErrorSinPermisoCrear w
      | Some OSError \<Rightarrow> print ErrorCrear w)"

text \<open>
  \<^verbatim>\<open>archivo.readlines()\<close> of a text file opened with universal newlines: a line ends at
  LF, CR or CR LF, each read as LF; the last line may lack its end.
\<close>

fun readlines :: "string \<Rightarrow> string list" where
  "readlines [] = []"
| "readlines (c # cs) =
     (if c = CHR 0x0A then [CHR 0x0A] # readlines cs
      else if c = CHR 0x0D then
        (case cs of
           [] \<Rightarrow> [[CHR 0x0A]]
         | d # ds \<Rightarrow> if d = CHR 0x0A then [CHR 0x0A] # readlines ds
                     else [CHR 0x0A] # readlines (d # ds))
      else (case readlines cs of [] \<Rightarrow> [[c]] | l # ls \<Rightarrow> (c # l) # ls))"

text \<open>
  The body of the loop of \<^verbatim>\<open>_cargar_desde_archivo\<close> for line \<open>num_linea\<close>; the number
  beside the state is \<^verbatim>\<open>productos_cargados\<close>. Each \<open>None\<close> of a conversion and the
  \<open>Inl\<close> of the constructor is the \<^verbatim>\<open>ValueError\<close> caught at the end of the body.
\<close>

definition procesar_linea :: "nat \<Rightarrow> string \<Rightarrow> mundo \<times> nat \<Rightarrow> mundo \<times> nat" where
  "procesar_linea num_linea texto st =
     (case st of (w, productos_cargados) \<Rightarrow>
       (let linea = py_strip texto in
        if linea = [] then (w, productos_cargados)
        else
          (let partes = py_split SEPARADOR linea in
           if length partes \<noteq> 4 then
             (print (AdvFormatoIncorrecto num_linea linea) w, productos_cargados)
           else
             (case py_int (partes ! 0) of
                None \<Rightarrow> (print (AdvDatosInvalidos num_linea) w, productos_cargados)
              | Some id_prod \<Rightarrow>
                 (case py_int (partes ! 2) of
                    None \<Rightarrow> (print (AdvDatosInvalidos num_linea) w, productos_cargados)
                  | Some cant \<Rightarrow>
                     (case py_float (partes ! 3) of
                        None \<Rightarrow> (print (AdvDatosInvalidos num_linea) w, productos_cargados)
                      | Some prec \<Rightarrow>
                         (case Producto id_prod (partes ! 1) cant prec w of
                            (Inl e, w') \<Rightarrow>
                              (print (AdvDatosInvalidos num_linea) w', productos_cargados)
                          | (Inr r, w') \<Rightarrow>
                              if indice_por_id w' (id_producto (objetos w' ! r)) \<noteq> None then
                                (print (AdvIdDuplicado num_linea id_prod) w', productos_cargados)
                              else
                                (w'\<lparr>productos := productos w' @ [r],
                                    indice_por_id :=
                                      (indice_por_id w')(id_producto (objetos w' ! r) \<mapsto> r)\<rparr>,
                                 productos_cargados + 1))))))))"

fun cargar_lineas :: "nat \<Rightarrow> string list \<Rightarrow> mundo \<times> nat \<Rightarrow> mundo \<times> nat" where
  "cargar_lineas num_linea [] st = st"
| "cargar_lineas num_linea (l # ls) st =
     cargar_lineas (Suc num_linea) ls (procesar_linea num_linea l st)"

text \<open>
  \<^verbatim>\<open>_cargar_desde_archivo\<close>: a missing file is \<^verbatim>\<open>FileNotFoundError\<close> and the file is
  created empty (\<open>es_crear\<close> is the outcome of that \<^verbatim>\<open>open\<close>); \<open>es_leer\<close> is the outcome
  of opening an existing file for reading.
\<close>

definition cargar_desde_archivo :: "fallo option \<Rightarrow> fallo option \<Rightarrow> mundo \<Rightarrow> mundo" where
  "cargar_desde_archivo es_leer es_crear w =
     (case archivo w of
        None \<Rightarrow> crear_archivo_vacio es_crear (print InfoArchivoNoEncontrado w)
      | Some contenido \<Rightarrow>
         (case es_leer of
            Some PermissionError \<Rightarrow> print ErrorSinPermisoLectura w
          | Some OSError \<Rightarrow> print ErrorLectura w
          | None \<Rightarrow>
             (case cargar_lineas 1 (readlines contenido) (w, 0) of
                (w', productos_cargados) \<Rightarrow>
                  if productos_cargados > 0 then print (InfoCargados productos_cargados) w'
                  else print InfoSinProductos w')))"

text \<open>\<^verbatim>\<open>Inventario.__init__\<close>: both structures empty, then the load.\<close>

definition Inventario_init :: "fallo option \<Rightarrow> fallo option \<Rightarrow> mundo \<Rightarrow> mundo" where
  "Inventario_init es_leer es_crear w =
     cargar_desde_archivo es_leer es_crear (w\<lparr>productos := [], indice_por_id := Map.empty\<rparr>)"

subsection \<open>Public operations\<close>

definition agregar_producto :: "(fallo \<times> momento) option \<Rightarrow> ref \<Rightarrow> mundo \<Rightarrow> bool \<times> mundo" where
  "agregar_producto es producto w =
     (let p = objetos w ! producto in
      if indice_por_id w (id_producto p) \<noteq> None then
        (False, print (ErrorIdExistente (id_producto p)) w)
      else
        (let w1 = w\<lparr>productos := productos w @ [producto],
                     indice_por_id := (indice_por_id w)(id_producto p \<mapsto> producto)\<rparr>;
             w2 = guardar_en_archivo es w1
         in (True, print (OkAgregado (nombre p) (id_producto p)) w2)))"

text \<open>
  \<^verbatim>\<open>list.remove\<close> takes out the first element equal to its argument and raises
  \<^verbatim>\<open>ValueError\<close> when there is none; \<^verbatim>\<open>eliminar_producto\<close> does not catch it.
\<close>

definition eliminar_producto :: "(fallo \<times> momento) option \<Rightarrow> int \<Rightarrow> mundo \<Rightarrow> (excepcion + bool) \<times> mundo" where
  "eliminar_producto es id_prod w =
     (case indice_por_id w id_prod of
        None \<Rightarrow> (Inr False, print (ErrorNoEncontrado id_prod) w)
      | Some producto \<Rightarrow>
         (let w1 = w\<lparr>indice_por_id := (indice_por_id w)(id_prod := None)\<rparr> in
          if producto \<notin> set (productos w1) then (Inl (ValueError NoEstaEnLista), w1)
          else
            (let w2 = w1\<lparr>productos := remove1 producto (productos w1)\<rparr>;
                 w3 = guardar_en_archivo es w2
             in (Inr True, print (OkEliminado (nombre (objetos w ! producto)) id_prod) w3))))"

text \<open>
  The assignments \<^verbatim>\<open>producto.cantidad = n\<close> and \<^verbatim>\<open>producto.precio = x\<close> on the object
  behind a reference: the setter either raises or stores the value in place.
\<close>

definition asignar_cantidad :: "ref \<Rightarrow> int \<Rightarrow> mundo \<Rightarrow> (excepcion + unit) \<times> mundo" where
  "asignar_cantidad producto nueva_cantidad w =
     (case cantidad_setter nueva_cantidad (objetos w ! producto) of
        Inl e \<Rightarrow> (Inl e, w)
      | Inr p' \<Rightarrow> (Inr (), w\<lparr>objetos := (objetos w)[producto := p']\<rparr>))"

definition asignar_precio :: "ref \<Rightarrow> pyfloat \<Rightarrow> mundo \<Rightarrow> (excepcion + unit) \<times> mundo" where
  "asignar_precio producto nuevo_precio w =
     (case precio_setter nuevo_precio (objetos w ! producto) of
        Inl e \<Rightarrow> (Inl e, w)
      | Inr p' \<Rightarrow> (Inr (), w\<lparr>objetos := (objetos w)[producto := p']\<rparr>))"

definition actualizar_cantidad :: "(fallo \<times> momento) option \<Rightarrow> int \<Rightarrow> int \<Rightarrow> mundo \<Rightarrow> bool \<times> mundo" where
  "actualizar_cantidad es id_prod nueva_cantidad w =
     (case indice_por_id w id_prod of
        None \<Rightarrow> (False, print (ErrorNoEncontrado id_prod) w)
      | Some producto \<Rightarrow>
         (case asignar_cantidad producto nueva_cantidad w of
            (Inl e, w') \<Rightarrow> (False, print ErrorCantidadInvalida w')
          | (Inr u, w1) \<Rightarrow>
             (let w2 = guardar_en_archivo es w1
              in (True, print (OkCantidad producto) w2))))"

definition actualizar_precio :: "(fallo \<times> momento) option \<Rightarrow> int \<Rightarrow> pyfloat \<Rightarrow> mundo \<Rightarrow> bool \<times> mundo" where
  "actualizar_precio es id_prod nuevo_precio w =
     (case indice_por_id w id_prod of
        None \<Rightarrow> (False, print (ErrorNoEncontrado id_prod) w)
      | Some producto \<Rightarrow>
         (case asignar_precio producto nuevo_precio w of
            (Inl e, w') \<Rightarrow> (False, print ErrorPrecioInvalido w')
          | (Inr u, w1) \<Rightarrow>
             (let w2 = guardar_en_archivo es w1
              in (True, print (OkPrecio producto) w2))))"

definition buscar_por_nombre :: "string \<Rightarrow> mundo \<Rightarrow> ref list" where
  "buscar_por_nombre texto w =
     (let texto' = py_strip (py_lower texto)
      in filter (\<lambda>p. py_in texto' (py_lower (nombre (objetos w ! p)))) (productos w))"

definition contar_productos :: "mundo \<Rightarrow> nat" where
  "contar_productos w = length (productos w)"

subsection \<open>Sequences of calls\<close>

text \<open>
  What a client of the two classes can do, one call at a time: build a product, hand a
  product it holds to the inventory, remove or update by id, assign to a product it
  holds, search, and build the inventory anew from the file. A client only holds
  references to objects that exist, so a call on any other reference does nothing here.
  The state after a call that raised is the state at the \<^verbatim>\<open>raise\<close>.
\<close>

datatype llamada =
    Crear int string int pyfloat
  | Agregar "(fallo \<times> momento) option" ref
  | Eliminar "(fallo \<times> momento) option" int
  | ActualizarCantidad "(fallo \<times> momento) option" int int
  | ActualizarPrecio "(fallo \<times> momento) option" int pyfloat
  | AsignarCantidad ref int
  | AsignarPrecio ref pyfloat
  | Reiniciar "fallo option" "fallo option"

fun paso :: "llamada \<Rightarrow> mundo \<Rightarrow> mundo" where
  "paso (Crear i n c p) w = snd (Producto i n c p w)"
| "paso (Agregar es r) w = (if r < length (objetos w) then snd (agregar_producto es r w) else w)"
| "paso (Eliminar es k) w = snd (eliminar_producto es k w)"
| "paso (ActualizarCantidad es k n) w = snd (actualizar_cantidad es k n w)"
| "paso (ActualizarPrecio es k x) w = snd (actualizar_precio es k x w)"
| "paso (AsignarCantidad r n) w =
     (if r < length (objetos w) then snd (asignar_cantidad r n w) else w)"
| "paso (AsignarPrecio r x) w =
     (if r < length (objetos w) then snd (asignar_precio r x w) else w)"
| "paso (Reiniciar es_leer es_crear) w = Inventario_init es_leer es_crear w"

fun ejecutar :: "llamada list \<Rightarrow> mundo \<Rightarrow> mundo" where
  "ejecutar [] w = w"
| "ejecutar (l # ls) w = ejecutar ls (paso l w)"

text \<open>The state a program starts from: no objects, nothing printed, the file as found.\<close>

definition arranque :: "string option \<Rightarrow> mundo" where
  "arranque f = \<lparr>objetos = [], productos = [], indice_por_id = Map.empty,
                 archivo = f, consola = []\<rparr>"

subsection \<open>Predicates of the specification\<close>

text \<open>
  The list and the map agree: the list has no reference twice, every reference of the
  list is to an existing object and is the map's entry for that object's id, and every
  entry of the map is a reference of the list to an object with that id.
\<close>

definition coherente :: "mundo \<Rightarrow> bool" where
  "coherente w =
     (distinct (productos w) \<and>
      (\<forall>r \<in> set (productos w).
         r < length (objetos w) \<and> indice_por_id w (id_producto (objetos w ! r)) = Some r) \<and>
      (\<forall>k r. indice_por_id w k = Some r \<longrightarrow>
         r \<in> set (productos w) \<and> id_producto (objetos w ! r) = k))"

text \<open>
  Following the specification's words: the name contains the text under case-insensitive
  comparison, that is, the lower-cased text is a contiguous piece of the lower-cased name.
\<close>

definition contiene_sin_distinguir :: "string \<Rightarrow> string \<Rightarrow> bool" where
  "contiene_sin_distinguir texto nom = sublist (py_lower texto) (py_lower nom)"

text \<open>
  The objects of \<open>xs\<close> are still there in \<open>ys\<close>, each with the id and the name it had.
\<close>

definition conserva :: "producto list \<Rightarrow> producto list \<Rightarrow> bool" where
  "conserva xs ys =
     (length xs \<le> length ys \<and>
      (\<forall>r < length xs. id_producto (ys ! r) = id_producto (xs ! r) \<and>
                        nombre (ys ! r) = nombre (xs ! r)))"

subsection \<open>Example states\<close>

text \<open>
  A run on a machine without \<^verbatim>\<open>inventario.txt\<close>: the inventory is built, the product
  1 "widget" (5 units at 9.99) is built and added, and a product 2 "gadget" is built but
  not added.
\<close>

definition mundo_widget :: mundo where
  "mundo_widget =
     ejecutar [Reiniciar None None, Crear 1 ''widget'' 5 (Finito False ''999'' 1),
               Agregar None 0, Crear 2 ''gadget'' 3 (Finito False ''25'' 1)]
       (arranque None)"

text \<open>The same run with the second product added as well.\<close>

definition mundo_dos :: mundo where
  "mundo_dos =
     ejecutar [Reiniciar None None, Crear 1 ''widget'' 5 (Finito False ''999'' 1),
               Agregar None 0, Crear 2 ''gadget'' 3 (Finito False ''25'' 1), Agregar None 1]
       (arranque None)"

section \<open>Properties of the built-ins\<close>

lemma isspace_lower_char: "isspace (lower_char c) = isspace c"
  unfolding lower_char_def mayusculas_def minusculas_def isspace_def by simp

lemma py_in_Nil: "py_in [] s"
  by (cases s) simp_all

lemma strip_blancos: "list_all isspace s \<Longrightarrow> py_strip s = []"
proof -
  assume "list_all isspace s"
  then have vacio: "dropWhile isspace s = []"
    by (simp add: list_all_iff)
  show ?thesis
    unfolding py_strip_def vacio by simp
qed

lemma lower_blancos: "list_all isspace s \<Longrightarrow> list_all isspace (py_lower s)"
  by (simp add: py_lower_def list_all_iff isspace_lower_char)

lemma py_in_sublist: "py_in t s = sublist t s"
  by (induction s) (simp_all add: sublist_Cons_right)

lemma dropWhile_map_lower:
  "dropWhile isspace (map lower_char s) = map lower_char (dropWhile isspace s)"
  by (induction s) (simp_all add: isspace_lower_char)

lemma strip_lower: "py_strip (py_lower s) = py_lower (py_strip s)"
  by (simp add: py_strip_def py_lower_def dropWhile_map_lower rev_map)

section \<open>The list and the map stay in agreement\<close>

lemma coherente_print [simp]: "coherente (print m w) = coherente w"
  by (simp add: coherente_def print_def)

lemma coherente_guardar [simp]: "coherente (guardar_en_archivo es w) = coherente w"
  by (cases es) (auto simp: guardar_en_archivo_def coherente_def print_def)

lemma coherente_crear_archivo [simp]: "coherente (crear_archivo_vacio es w) = coherente w"
  by (cases es; cases "the es") (simp_all add: crear_archivo_vacio_def, simp_all add: coherente_def print_def)

lemma coherente_alojar: "coherente w \<Longrightarrow> coherente (w\<lparr>objetos := objetos w @ [p]\<rparr>)"
  by (auto simp: coherente_def nth_append)

lemma coherente_Producto_res:
  "coherente w \<Longrightarrow> Producto i n c p w = (e, w') \<Longrightarrow> coherente w'"
  by (cases "Producto_init i n c p") (auto simp: Producto_def nuevo_def coherente_alojar)

lemma coherente_Producto: "coherente w \<Longrightarrow> coherente (snd (Producto i n c p w))"
  using coherente_Producto_res [of w i n c p] by (cases "Producto i n c p w") simp

lemma coherenteD:
  assumes "coherente w"
  shows "distinct (productos w)"
    and "\<And>r. r \<in> set (productos w) \<Longrightarrow> r < length (objetos w)"
    and "\<And>r. r \<in> set (productos w) \<Longrightarrow>
           indice_por_id w (id_producto (objetos w ! r)) = Some r"
    and "\<And>k r. indice_por_id w k = Some r \<Longrightarrow> r \<in> set (productos w)"
    and "\<And>k r. indice_por_id w k = Some r \<Longrightarrow> id_producto (objetos w ! r) = k"
  using assms unfolding coherente_def by blast+

lemma coherente_anadir:
  assumes w: "coherente w" and r: "r < length (objetos w)"
    and libre: "indice_por_id w (id_producto (objetos w ! r)) = None"
  shows "coherente (w\<lparr>productos := productos w @ [r],
                      indice_por_id := (indice_por_id w)(id_producto (objetos w ! r) \<mapsto> r)\<rparr>)"
proof -
  let ?k = "id_producto (objetos w ! r)"
  let ?m = "(indice_por_id w)(?k \<mapsto> r)"
  note D = coherenteD [OF w]
  have nuevo_en_lista: "r \<notin> set (productos w)"
    using D(3) [of r] libre by auto
  have 1: "distinct (productos w @ [r])"
    using D(1) nuevo_en_lista by simp
  have 2: "r' < length (objetos w) \<and> ?m (id_producto (objetos w ! r')) = Some r'"
    if "r' \<in> set (productos w @ [r])" for r'
  proof (cases "r' = r")
    case True
    then show ?thesis using r by simp
  next
    case False
    with that have en: "r' \<in> set (productos w)" by simp
    then have "indice_por_id w (id_producto (objetos w ! r')) = Some r'" by (rule D(3))
    moreover from this libre have "id_producto (objetos w ! r') \<noteq> ?k" by auto
    ultimately show ?thesis using D(2) [OF en] by simp
  qed
  have 3: "r' \<in> set (productos w @ [r]) \<and> id_producto (objetos w ! r') = k"
    if "?m k = Some r'" for k r'
  proof (cases "k = ?k")
    case True
    with that show ?thesis by simp
  next
    case False
    with that have "indice_por_id w k = Some r'" by simp
    then show ?thesis using D(4) [of k r'] D(5) [of k r'] by simp
  qed
  let ?w' = "w\<lparr>productos := productos w @ [r], indice_por_id := ?m\<rparr>"
  have campos: "productos ?w' = productos w @ [r]" "indice_por_id ?w' = ?m"
    "objetos ?w' = objetos w"
    by simp_all
  show ?thesis
    unfolding coherente_def campos using 1 2 3 by blast
qed

lemma coherente_agregar:
  "coherente w \<Longrightarrow> r < length (objetos w) \<Longrightarrow> coherente (snd (agregar_producto es r w))"
  by (auto simp: agregar_producto_def Let_def coherente_anadir)

lemma coherente_quitar:
  assumes w: "coherente w" and kr: "indice_por_id w k = Some r"
  shows "coherente (w\<lparr>indice_por_id := (indice_por_id w)(k := None),
                      productos := remove1 r (productos w)\<rparr>)"
proof -
  let ?m = "(indice_por_id w)(k := None)"
  note D = coherenteD [OF w]
  have resto: "set (remove1 r (productos w)) = set (productos w) - {r}"
    using D(1) by simp
  have 1: "distinct (remove1 r (productos w))"
    using D(1) by simp
  have 2: "r' < length (objetos w) \<and> ?m (id_producto (objetos w ! r')) = Some r'"
    if "r' \<in> set (remove1 r (productos w))" for r'
  proof -
    from that resto have en: "r' \<in> set (productos w)" and dif: "r' \<noteq> r" by auto
    have m: "indice_por_id w (id_producto (objetos w ! r')) = Some r'" using en by (rule D(3))
    with kr dif have "id_producto (objetos w ! r') \<noteq> k" by auto
    with m D(2) [OF en] show ?thesis by simp
  qed
  have 3: "r' \<in> set (remove1 r (productos w)) \<and> id_producto (objetos w ! r') = k'"
    if "?m k' = Some r'" for k' r'
  proof -
    from that have dif: "k' \<noteq> k" and m: "indice_por_id w k' = Some r'"
      by (auto split: if_splits)
    have "r' \<noteq> r"
    proof
      assume "r' = r"
      with m D(5) [of k' r'] D(5) [OF kr] dif show False by simp
    qed
    with D(4) [OF m] D(5) [OF m] resto show ?thesis by simp
  qed
  let ?w' = "w\<lparr>indice_por_id := ?m, productos := remove1 r (productos w)\<rparr>"
  have campos: "productos ?w' = remove1 r (productos w)" "indice_por_id ?w' = ?m"
    "objetos ?w' = objetos w"
    by simp_all
  show ?thesis
    unfolding coherente_def campos using 1 2 3 by blast
qed

lemma coherente_eliminar: "coherente w \<Longrightarrow> coherente (snd (eliminar_producto es k w))"
proof (cases "indice_por_id w k")
  case None
  assume "coherente w"
  with None show ?thesis by (simp add: eliminar_producto_def)
next
  case (Some r)
  assume c: "coherente w"
  with Some have "r \<in> set (productos w)" by (auto simp: coherente_def)
  with Some coherente_quitar [OF c Some] show ?thesis
    by (simp add: eliminar_producto_def Let_def)
qed

lemma id_producto_list_update:
  "id_producto p' = id_producto (xs ! r) \<Longrightarrow>
     id_producto (xs[r := p'] ! ra) = id_producto (xs ! ra)"
  by (cases "r < length xs") (auto simp: nth_list_update list_update_beyond)

lemma coherente_objetos_update:
  "coherente w \<Longrightarrow> id_producto p' = id_producto (objetos w ! r) \<Longrightarrow>
     coherente (w\<lparr>objetos := (objetos w)[r := p']\<rparr>)"
  by (simp add: coherente_def id_producto_list_update)

lemma coherente_asignar_cantidad:
  "coherente w \<Longrightarrow> coherente (snd (asignar_cantidad r n w))"
  by (simp add: asignar_cantidad_def cantidad_setter_def coherente_objetos_update)

lemma coherente_asignar_precio:
  "coherente w \<Longrightarrow> coherente (snd (asignar_precio r x w))"
  by (simp add: asignar_precio_def precio_setter_def coherente_objetos_update)

lemma coherente_actualizar_cantidad:
  "coherente w \<Longrightarrow> coherente (snd (actualizar_cantidad es k n w))"
proof (cases "indice_por_id w k")
  case None
  assume "coherente w"
  with None show ?thesis by (simp add: actualizar_cantidad_def)
next
  case (Some r)
  assume "coherente w"
  then have "coherente (snd (asignar_cantidad r n w))"
    by (rule coherente_asignar_cantidad)
  with Some show ?thesis
    by (cases "asignar_cantidad r n w"; cases "fst (asignar_cantidad r n w)")
       (simp_all add: actualizar_cantidad_def)
qed

lemma coherente_actualizar_precio:
  "coherente w \<Longrightarrow> coherente (snd (actualizar_precio es k x w))"
proof (cases "indice_por_id w k")
  case None
  assume "coherente w"
  with None show ?thesis by (simp add: actualizar_precio_def)
next
  case (Some r)
  assume "coherente w"
  then have "coherente (snd (asignar_precio r x w))"
    by (rule coherente_asignar_precio)
  with Some show ?thesis
    by (cases "asignar_precio r x w"; cases "fst (asignar_precio r x w)")
       (simp_all add: actualizar_precio_def)
qed

lemma Producto_ref:
  "Producto i n c p w = (Inr r, w') \<Longrightarrow> r < length (objetos w')"
  by (auto simp: Producto_def nuevo_def split: sum.splits)

lemma coherente_registro:
  assumes w: "coherente w" and P: "Producto i nm q x w = (Inr r, w')"
  shows "coherente w' \<and>
         (indice_por_id w' (id_producto (objetos w' ! r)) = None \<longrightarrow>
            coherente (w'\<lparr>productos := productos w' @ [r],
                          indice_por_id :=
                            (indice_por_id w')(id_producto (objetos w' ! r) \<mapsto> r)\<rparr>))"
proof -
  have w': "coherente w'" using coherente_Producto_res [OF w P] .
  have r: "r < length (objetos w')" using Producto_ref [OF P] .
  show ?thesis using coherente_anadir [OF w' r] w' by blast
qed

lemma coherente_procesar_linea:
  assumes "coherente (fst st)"
  shows "coherente (fst (procesar_linea n l st))"
proof -
  obtain w c where st: "st = (w, c)" by (cases st)
  with assms have w: "coherente w" by simp
  let ?partes = "py_split SEPARADOR (py_strip l)"
  show ?thesis
  proof (cases "py_strip l = [] \<or> length ?partes \<noteq> 4")
    case True
    then show ?thesis by (auto simp: st procesar_linea_def Let_def w)
  next
    case False
    note F = this
    show ?thesis
    proof (cases "py_int (?partes ! 0)")
      case None
      with F show ?thesis by (simp add: st procesar_linea_def Let_def w)
    next
      case i: (Some i)
      show ?thesis
      proof (cases "py_int (?partes ! 2)")
        case None
        with F i show ?thesis by (simp add: st procesar_linea_def Let_def w)
      next
        case q: (Some q)
        show ?thesis
        proof (cases "py_float (?partes ! 3)")
          case None
          with F i q show ?thesis by (simp add: st procesar_linea_def Let_def w)
        next
          case x: (Some x)
          obtain e w' where P: "Producto i (?partes ! 1) q x w = (e, w')"
            by (cases "Producto i (?partes ! 1) q x w")
          show ?thesis
          proof (cases e)
            case (Inl a)
            with F i q x P coherente_Producto_res [OF w P] show ?thesis
              by (simp add: st procesar_linea_def Let_def)
          next
            case (Inr r)
            with F i q x P coherente_registro [OF w P [unfolded Inr]] show ?thesis
              by (auto simp: st procesar_linea_def Let_def)
          qed
        qed
      qed
    qed
  qed
qed

lemma coherente_cargar_lineas:
  "coherente (fst st) \<Longrightarrow> coherente (fst (cargar_lineas n ls st))"
  by (induction ls arbitrary: n st) (simp_all add: coherente_procesar_linea)

lemma coherente_cargar:
  assumes "coherente w"
  shows "coherente (cargar_desde_archivo el ec w)"
proof (cases "archivo w")
  case None
  with assms show ?thesis by (simp add: cargar_desde_archivo_def)
next
  case (Some contenido)
  obtain w' c where L: "cargar_lineas 1 (readlines contenido) (w, 0) = (w', c)"
    by (cases "cargar_lineas 1 (readlines contenido) (w, 0)")
  have "coherente (fst (cargar_lineas 1 (readlines contenido) (w, 0)))"
    by (rule coherente_cargar_lineas) (simp add: assms)
  then have w': "coherente w'"
    unfolding L by simp
  show ?thesis
  proof (cases el)
    case None
    with w' L \<open>archivo w = Some contenido\<close> show ?thesis
      by (simp add: cargar_desde_archivo_def)
  next
    case (Some f)
    with assms \<open>archivo w = Some contenido\<close> show ?thesis
      by (cases f) (simp_all add: cargar_desde_archivo_def)
  qed
qed

lemma coherente_Inventario_init: "coherente (Inventario_init el ec w)"
  unfolding Inventario_init_def by (rule coherente_cargar) (simp add: coherente_def)

lemma coherente_paso: "coherente w \<Longrightarrow> coherente (paso l w)"
  by (cases l)
     (simp_all add: coherente_Producto coherente_agregar coherente_eliminar
        coherente_actualizar_cantidad coherente_actualizar_precio coherente_asignar_cantidad
        coherente_asignar_precio coherente_Inventario_init)

lemma coherente_ejecutar: "coherente w \<Longrightarrow> coherente (ejecutar ls w)"
  by (induction ls arbitrary: w) (simp_all add: coherente_paso)

lemma coherente_ran: "coherente w \<Longrightarrow> set (productos w) = ran (indice_por_id w)"
  by (fastforce simp: coherente_def ran_def)

section \<open>What each operation leaves as it was\<close>

lemma eliminar_presente:
  assumes c: "coherente w" and kr: "indice_por_id w k = Some r"
  shows "eliminar_producto es k w =
           (Inr True,
            print (OkEliminado (nombre (objetos w ! r)) k)
              (guardar_en_archivo es
                 (w\<lparr>indice_por_id := (indice_por_id w)(k := None),
                     productos := remove1 r (productos w)\<rparr>)))"
proof -
  have "r \<in> set (productos w)" using coherenteD(4) [OF c kr] .
  with kr show ?thesis by (simp add: eliminar_producto_def Let_def)
qed

lemma campos_guardar [simp]:
  "productos (guardar_en_archivo es w) = productos w"
  "indice_por_id (guardar_en_archivo es w) = indice_por_id w"
  "objetos (guardar_en_archivo es w) = objetos w"
  by (cases es; auto simp: guardar_en_archivo_def print_def)+

lemma campos_print [simp]:
  "productos (print m w) = productos w"
  "indice_por_id (print m w) = indice_por_id w"
  "objetos (print m w) = objetos w"
  "archivo (print m w) = archivo w"
  "consola (print m w) = consola w @ [m]"
  by (simp_all add: print_def)

lemma eliminar_ausente:
  "indice_por_id w k = None \<Longrightarrow>
     eliminar_producto es k w = (Inr False, print (ErrorNoEncontrado k) w)"
  by (simp add: eliminar_producto_def)

lemma actualizar_cantidad_ausente:
  "indice_por_id w k = None \<Longrightarrow>
     actualizar_cantidad es k n w = (False, print (ErrorNoEncontrado k) w)"
  by (simp add: actualizar_cantidad_def)

lemma actualizar_precio_ausente:
  "indice_por_id w k = None \<Longrightarrow>
     actualizar_precio es k x w = (False, print (ErrorNoEncontrado k) w)"
  by (simp add: actualizar_precio_def)

lemma conserva_refl [simp]: "conserva xs xs"
  by (simp add: conserva_def)

lemma conserva_trans: "conserva xs ys \<Longrightarrow> conserva ys zs \<Longrightarrow> conserva xs zs"
  unfolding conserva_def by (metis (no_types, lifting) le_trans less_le_trans)

lemma conserva_append [simp]: "conserva xs (xs @ [p])"
  by (simp add: conserva_def nth_append)

lemma conserva_update:
  "id_producto p' = id_producto (xs ! r) \<Longrightarrow> nombre p' = nombre (xs ! r) \<Longrightarrow>
     conserva xs (xs[r := p'])"
  unfolding conserva_def
proof (intro conjI allI impI)
  fix ra assume "ra < length xs"
  assume "id_producto p' = id_producto (xs ! r)" "nombre p' = nombre (xs ! r)"
  then show "id_producto (xs[r := p'] ! ra) = id_producto (xs ! ra)"
    and "nombre (xs[r := p'] ! ra) = nombre (xs ! ra)"
    using \<open>ra < length xs\<close> by (cases "ra = r"; simp)+
qed simp

lemma objetos_crear_archivo [simp]: "objetos (crear_archivo_vacio es w) = objetos w"
  by (cases es; cases "the es") (simp_all add: crear_archivo_vacio_def)

lemma conserva_Producto: "conserva (objetos w) (objetos (snd (Producto i n c p w)))"
  by (cases "Producto_init i n c p") (simp_all add: Producto_def nuevo_def)

lemma conserva_agregar: "conserva (objetos w) (objetos (snd (agregar_producto es r w)))"
  by (simp add: agregar_producto_def Let_def)

lemma conserva_eliminar: "conserva (objetos w) (objetos (snd (eliminar_producto es k w)))"
  by (cases "indice_por_id w k") (simp_all add: eliminar_producto_def Let_def)

lemma conserva_asignar_cantidad:
  "conserva (objetos w) (objetos (snd (asignar_cantidad r n w)))"
  by (simp add: asignar_cantidad_def cantidad_setter_def conserva_update)

lemma conserva_asignar_precio:
  "conserva (objetos w) (objetos (snd (asignar_precio r x w)))"
  by (simp add: asignar_precio_def precio_setter_def conserva_update)

lemma conserva_actualizar_cantidad:
  "conserva (objetos w) (objetos (snd (actualizar_cantidad es k n w)))"
proof (cases "indice_por_id w k")
  case None
  then show ?thesis by (simp add: actualizar_cantidad_def)
next
  case (Some r)
  with conserva_asignar_cantidad [of w r n] show ?thesis
    by (cases "asignar_cantidad r n w"; cases "fst (asignar_cantidad r n w)")
       (simp_all add: actualizar_cantidad_def)
qed

lemma conserva_actualizar_precio:
  "conserva (objetos w) (objetos (snd (actualizar_precio es k x w)))"
proof (cases "indice_por_id w k")
  case None
  then show ?thesis by (simp add: actualizar_precio_def)
next
  case (Some r)
  with conserva_asignar_precio [of w r x] show ?thesis
    by (cases "asignar_precio r x w"; cases "fst (asignar_precio r x w)")
       (simp_all add: actualizar_precio_def)
qed

lemma conserva_procesar_linea:
  "conserva (objetos (fst st)) (objetos (fst (procesar_linea n l st)))"
proof -
  obtain w c where st: "st = (w, c)" by (cases st)
  have P: "conserva (objetos w) (objetos w')" if "Producto i nm q x w = (e, w')" for i nm q x e w'
    using conserva_Producto [of w i nm q x] that by simp
  show ?thesis
    unfolding st procesar_linea_def
    by (auto simp: Let_def split: option.splits prod.splits sum.splits dest: P)
qed

lemma conserva_cargar_lineas:
  "conserva (objetos (fst st)) (objetos (fst (cargar_lineas n ls st)))"
proof (induction ls arbitrary: n st)
  case Nil
  show ?case by simp
next
  case (Cons l ls)
  show ?case
    using conserva_trans [OF conserva_procesar_linea [of st n l] Cons.IH [where n = "Suc n" and st = "procesar_linea n l st"]]
    by simp
qed

lemma conserva_cargar: "conserva (objetos w) (objetos (cargar_desde_archivo el ec w))"
proof (cases "archivo w")
  case None
  then show ?thesis by (simp add: cargar_desde_archivo_def)
next
  case (Some contenido)
  obtain w' c where L: "cargar_lineas 1 (readlines contenido) (w, 0) = (w', c)"
    by (cases "cargar_lineas 1 (readlines contenido) (w, 0)")
  have w': "conserva (objetos w) (objetos w')"
    using conserva_cargar_lineas [of "(w, 0)" 1 "readlines contenido"] unfolding L by simp
  show ?thesis
  proof (cases el)
    case None
    with w' L \<open>archivo w = Some contenido\<close> show ?thesis
      by (simp add: cargar_desde_archivo_def)
  next
    case (Some f)
    with \<open>archivo w = Some contenido\<close> show ?thesis
      by (cases f) (simp_all add: cargar_desde_archivo_def)
  qed
qed

lemma conserva_Inventario_init: "conserva (objetos w) (objetos (Inventario_init el ec w))"
  using conserva_cargar [of "w\<lparr>productos := [], indice_por_id := Map.empty\<rparr>" el ec]
  by (simp add: Inventario_init_def)

lemma conserva_paso: "conserva (objetos w) (objetos (paso l w))"
  by (cases l)
     (simp_all add: conserva_Producto conserva_agregar conserva_eliminar
        conserva_actualizar_cantidad conserva_actualizar_precio conserva_asignar_cantidad
        conserva_asignar_precio conserva_Inventario_init)

lemma conserva_ejecutar: "conserva (objetos w) (objetos (ejecutar ls w))"
proof (induction ls arbitrary: w)
  case Nil
  show ?case by simp
next
  case (Cons l ls)
  show ?case
    using conserva_trans [OF conserva_paso [of w l] Cons.IH [where w = "paso l w"]] by simp
qed

section \<open>Printing a number and reading it back\<close>


































section \<open>A line of the file read back\<close>



























section \<open>The claims\<close>

text \<open>
  C3. Starting from an empty store (no file yet), adding
  \<^verbatim>\<open>Producto(1, "widget", 5, 9.99)\<close> succeeds and leaves the file holding exactly the
  line \<^verbatim>\<open>1|Widget|5|9.99\<close>; an inventory built from that file in a new run counts one
  product, whose fields are those of the product that was added.
\<close>

theorem escenario_widget:
  "(case Producto 1 ''widget'' 5 (Finito False ''999'' 1)
           (Inventario_init None None (arranque None)) of
      (Inl e, w1) \<Rightarrow> False
    | (Inr r, w1) \<Rightarrow>
        contar_productos w1 = 0 \<and>
        (case agregar_producto None r w1 of
           (ok, w2) \<Rightarrow>
             ok \<and> archivo w2 = Some (''1|Widget|5|9.99'' @ [CHR 0x0A]) \<and>
             (let w3 = Inventario_init None None (arranque (archivo w2))
              in contar_productos w3 = 1 \<and>
                 map ((!) (objetos w3)) (productos w3) = [objetos w2 ! r] \<and>
                 objetos w2 ! r = \<lparr>id_producto = 1, nombre = ''Widget'', cantidad = 5,
                                    precio = Finito False ''999'' 1\<rparr>)))"
  by code_simp

text \<open>
  C4. When the id of the product is already a key of the id map, \<^verbatim>\<open>agregar_producto\<close>
  returns \<^verbatim>\<open>False\<close> and the count, the list, the map, the objects and the file are
  as before; when it is not, the call returns \<^verbatim>\<open>True\<close>, the product is appended to
  the list and entered in the map under its id, whatever the outcome of the save.
\<close>

theorem agregar_producto_contrato:
  "(indice_por_id w (id_producto (objetos w ! r)) \<noteq> None \<longrightarrow>
      (case agregar_producto es r w of
         (ok, w') \<Rightarrow> \<not> ok \<and> contar_productos w' = contar_productos w \<and>
                     productos w' = productos w \<and> indice_por_id w' = indice_por_id w \<and>
                     objetos w' = objetos w \<and> archivo w' = archivo w)) \<and>
   (indice_por_id w (id_producto (objetos w ! r)) = None \<longrightarrow>
      (case agregar_producto es r w of
         (ok, w') \<Rightarrow> ok \<and> productos w' = productos w @ [r] \<and>
                     indice_por_id w' = (indice_por_id w)(id_producto (objetos w ! r) \<mapsto> r) \<and>
                     contar_productos w' = contar_productos w + 1 \<and>
                     objetos w' = objetos w))"
  by (cases es)
     (auto simp: agregar_producto_def print_def guardar_en_archivo_def contar_productos_def Let_def)

theorem agregar_producto_witness:
  "indice_por_id mundo_widget (id_producto (objetos mundo_widget ! 0)) \<noteq> None \<and>
   \<not> fst (agregar_producto None 0 mundo_widget) \<and>
   productos (snd (agregar_producto None 0 mundo_widget)) = productos mundo_widget \<and>
   indice_por_id mundo_widget (id_producto (objetos mundo_widget ! 1)) = None \<and>
   fst (agregar_producto None 1 mundo_widget) \<and>
   productos (snd (agregar_producto None 1 mundo_widget)) = productos mundo_widget @ [1]"
proof -
  have a: "indice_por_id mundo_widget (id_producto (objetos mundo_widget ! 0)) \<noteq> None"
    by code_simp
  have b: "indice_por_id mundo_widget (id_producto (objetos mundo_widget ! 1)) = None"
    by code_simp
  show ?thesis
    using a b agregar_producto_contrato [of mundo_widget 0 None]
      agregar_producto_contrato [of mundo_widget 1 None]
    by (auto split: prod.splits)
qed

text \<open>
  C10. \<^verbatim>\<open>buscar_por_nombre\<close> matches with the query lower-cased and then stripped of
  blanks at both ends; so a query that is empty or all blanks returns every product of
  the store, in the order of the list.
\<close>

theorem buscar_texto_en_blanco:
  "buscar_por_nombre texto w =
     filter (\<lambda>p. py_in (py_strip (py_lower texto)) (py_lower (nombre (objetos w ! p))))
       (productos w) \<and>
   (list_all isspace texto \<longrightarrow> buscar_por_nombre texto w = productos w)"
  by (simp add: buscar_por_nombre_def strip_blancos lower_blancos py_in_Nil)

theorem buscar_texto_en_blanco_witness:
  "list_all isspace ''  '' \<and> buscar_por_nombre ''  '' mundo_widget = productos mundo_widget \<and>
   list_all isspace [] \<and> buscar_por_nombre [] mundo_widget = productos mundo_widget \<and>
   productos mundo_widget = [0]"
proof -
  have a: "list_all isspace ''  ''" by code_simp
  have b: "list_all isspace []" by simp
  have c: "productos mundo_widget = [0]" by code_simp
  from a have d: "buscar_por_nombre ''  '' mundo_widget = productos mundo_widget"
    using buscar_texto_en_blanco [of "''  ''" mundo_widget] by blast
  from b have e: "buscar_por_nombre [] mundo_widget = productos mundo_widget"
    using buscar_texto_en_blanco [of "[]" mundo_widget] by blast
  from a b c d e show ?thesis by blast
qed

text \<open>
  C1. After the startup load and any sequence of calls (building products, adding,
  removing, updating quantity or price, assigning to a product directly, loading again),
  whatever the file held and whatever the outcome of each save, the list and the id map
  hold the same products: the references of the list are exactly the values of the map,
  every product of the list is the map's entry under its id, and every entry of the map
  is a product of the list with that id.
\<close>

theorem lista_y_mapa_coinciden:
  "(let w = ejecutar ops (Inventario_init es_leer es_crear w0) in
     set (productos w) = ran (indice_por_id w) \<and>
     (\<forall>r \<in> set (productos w). indice_por_id w (id_producto (objetos w ! r)) = Some r) \<and>
     (\<forall>k r. indice_por_id w k = Some r \<longrightarrow>
        r \<in> set (productos w) \<and> id_producto (objetos w ! r) = k))"
proof -
  have c: "coherente (ejecutar ops (Inventario_init es_leer es_crear w0))"
    by (rule coherente_ejecutar) (rule coherente_Inventario_init)
  show ?thesis
    unfolding Let_def using coherente_ran [OF c] coherenteD(3-5) [OF c] by blast
qed

theorem lista_y_mapa_coinciden_witness:
  "productos mundo_widget = [0] \<and> indice_por_id mundo_widget 1 = Some 0 \<and>
   set (productos mundo_widget) = ran (indice_por_id mundo_widget) \<and>
   indice_por_id mundo_widget (id_producto (objetos mundo_widget ! 0)) = Some 0"
proof -
  have eq: "mundo_widget =
      ejecutar [Crear 1 ''widget'' 5 (Finito False ''999'' 1), Agregar None 0,
                Crear 2 ''gadget'' 3 (Finito False ''25'' 1)]
        (Inventario_init None None (arranque None))"
    by (simp add: mundo_widget_def)
  have a: "productos mundo_widget = [0]" by code_simp
  have b: "indice_por_id mundo_widget 1 = Some 0" by code_simp
  have c: "set (productos mundo_widget) = ran (indice_por_id mundo_widget) \<and>
     (\<forall>r \<in> set (productos mundo_widget).
        indice_por_id mundo_widget (id_producto (objetos mundo_widget ! r)) = Some r)"
    using lista_y_mapa_coinciden
      [of "[Crear 1 ''widget'' 5 (Finito False ''999'' 1), Agregar None 0,
            Crear 2 ''gadget'' 3 (Finito False ''25'' 1)]" None None "arranque None"]
    unfolding eq [symmetric] Let_def by blast
  with a b show ?thesis by simp
qed

text \<open>
  C8. As stated the claim fails: the query is stripped of blanks before matching, so
  \<^verbatim>\<open>"wid "\<close> finds \<^verbatim>\<open>Widget\<close> although that name does not contain \<^verbatim>\<open>"wid "\<close>
  under case-insensitive comparison.
\<close>

theorem buscar_por_nombre_contraejemplo:
  "map (\<lambda>p. nombre (objetos mundo_dos ! p)) (buscar_por_nombre ''wid '' mundo_dos) =
     [''Widget''] \<and>
   \<not> contiene_sin_distinguir ''wid '' ''Widget''"
proof -
  have "map (\<lambda>p. nombre (objetos mundo_dos ! p)) (buscar_por_nombre ''wid '' mundo_dos) =
          [''Widget'']"
    by code_simp
  moreover have "\<not> py_in (py_lower ''wid '') (py_lower ''Widget'')"
    by code_simp
  ultimately show ?thesis
    by (simp only: contiene_sin_distinguir_def py_in_sublist simp_thms)
qed

text \<open>
  C8, amended. \<^verbatim>\<open>buscar_por_nombre\<close> returns exactly the products of the list, in the
  order of the list, whose name contains under case-insensitive comparison the given text
  with the blanks at its two ends removed. It is a function of the state that returns a
  list only: it changes neither the store nor the file. On the store holding
  \<^verbatim>\<open>Widget\<close> and \<^verbatim>\<open>Gadget\<close>, the query \<^verbatim>\<open>wid\<close> returns \<^verbatim>\<open>Widget\<close> alone.
\<close>

theorem buscar_por_nombre_recortado:
  "buscar_por_nombre texto w =
     filter (\<lambda>p. contiene_sin_distinguir (py_strip texto) (nombre (objetos w ! p)))
       (productos w) \<and>
   map (\<lambda>p. nombre (objetos mundo_dos ! p)) (productos mundo_dos) = [''Widget'', ''Gadget''] \<and>
   map (\<lambda>p. nombre (objetos mundo_dos ! p)) (buscar_por_nombre ''wid'' mundo_dos) = [''Widget'']"
proof -
  have 1: "buscar_por_nombre texto w =
     filter (\<lambda>p. contiene_sin_distinguir (py_strip texto) (nombre (objetos w ! p)))
       (productos w)"
    by (simp add: buscar_por_nombre_def contiene_sin_distinguir_def py_in_sublist strip_lower)
  have 2: "map (\<lambda>p. nombre (objetos mundo_dos ! p)) (productos mundo_dos) =
             [''Widget'', ''Gadget'']"
    by code_simp
  have 3: "map (\<lambda>p. nombre (objetos mundo_dos ! p)) (buscar_por_nombre ''wid'' mundo_dos) =
             [''Widget'']"
    by code_simp
  from 1 2 3 show ?thesis by blast
qed

text \<open>
  C5. In every state the program can reach: removing an id that is a key of the map
  returns \<^verbatim>\<open>True\<close>, the count goes down by exactly one, the id is no longer in the
  map nor the id of any product of the list, and a later removal or update of that id
  returns \<^verbatim>\<open>False\<close>; removing an id that is not there returns \<^verbatim>\<open>False\<close> and leaves
  the count, the list, the map, the objects and the file as they were.
\<close>

theorem eliminar_producto_contrato:
  "(let w = ejecutar ops (Inventario_init es_leer es_crear w0) in
     (indice_por_id w k \<noteq> None \<longrightarrow>
        (case eliminar_producto es k w of
           (res, w') \<Rightarrow>
             res = Inr True \<and> contar_productos w' + 1 = contar_productos w \<and>
             indice_por_id w' k = None \<and>
             list_all (\<lambda>r. id_producto (objetos w' ! r) \<noteq> k) (productos w') \<and>
             fst (eliminar_producto es' k w') = Inr False \<and>
             \<not> fst (actualizar_cantidad es' k n w') \<and>
             \<not> fst (actualizar_precio es' k x w'))) \<and>
     (indice_por_id w k = None \<longrightarrow>
        (case eliminar_producto es k w of
           (res, w') \<Rightarrow>
             res = Inr False \<and> contar_productos w' = contar_productos w \<and>
             productos w' = productos w \<and> indice_por_id w' = indice_por_id w \<and>
             objetos w' = objetos w \<and> archivo w' = archivo w)))"
proof -
  define w where "w = ejecutar ops (Inventario_init es_leer es_crear w0)"
  have c: "coherente w"
    unfolding w_def by (rule coherente_ejecutar) (rule coherente_Inventario_init)
  have presente: "res = Inr True \<and> contar_productos w' + 1 = contar_productos w \<and>
             indice_por_id w' k = None \<and>
             list_all (\<lambda>r. id_producto (objetos w' ! r) \<noteq> k) (productos w') \<and>
             fst (eliminar_producto es' k w') = Inr False \<and>
             \<not> fst (actualizar_cantidad es' k n w') \<and>
             \<not> fst (actualizar_precio es' k x w')"
    if kr: "indice_por_id w k = Some r" and e: "eliminar_producto es k w = (res, w')" for r res w'
  proof -
    note E = e [unfolded eliminar_presente [OF c kr]]
    from E have res: "res = Inr True" by simp
    have c': "coherente w'"
      using coherente_eliminar [OF c, of es k] e by simp
    have en: "r \<in> set (productos w)" using coherenteD(4) [OF c kr] .
    from E have pr: "productos w' = remove1 r (productos w)"
      and ix: "indice_por_id w' = (indice_por_id w)(k := None)"
      by auto
    from en have "0 < length (productos w)" by (rule length_pos_if_in_set)
    with pr en have n: "contar_productos w' + 1 = contar_productos w"
      by (simp add: contar_productos_def length_remove1)
    from ix have ninguno: "indice_por_id w' k = None" by simp
    have sin: "list_all (\<lambda>r. id_producto (objetos w' ! r) \<noteq> k) (productos w')"
      unfolding list_all_iff
    proof
      fix r' assume "r' \<in> set (productos w')"
      then have "indice_por_id w' (id_producto (objetos w' ! r')) = Some r'"
        by (rule coherenteD(3) [OF c'])
      with ninguno show "id_producto (objetos w' ! r') \<noteq> k" by auto
    qed
    show ?thesis
      using res n ninguno sin
      by (simp add: eliminar_ausente actualizar_cantidad_ausente actualizar_precio_ausente)
  qed
  have ausente: "res = Inr False \<and> contar_productos w' = contar_productos w \<and>
             productos w' = productos w \<and> indice_por_id w' = indice_por_id w \<and>
             objetos w' = objetos w \<and> archivo w' = archivo w"
    if "indice_por_id w k = None" and "eliminar_producto es k w = (res, w')" for res w'
    using that by (auto simp: eliminar_ausente contar_productos_def)
  show ?thesis
    unfolding Let_def w_def [symmetric] using presente ausente
    by (cases "eliminar_producto es k w") auto
qed

theorem eliminar_producto_witness:
  "indice_por_id mundo_dos 1 \<noteq> None \<and> contar_productos mundo_dos = 2 \<and>
   fst (eliminar_producto None 1 mundo_dos) = Inr True \<and>
   contar_productos (snd (eliminar_producto None 1 mundo_dos)) + 1 = contar_productos mundo_dos \<and>
   indice_por_id (snd (eliminar_producto None 1 mundo_dos)) 1 = None \<and>
   indice_por_id mundo_dos 7 = None \<and>
   fst (eliminar_producto None 7 mundo_dos) = Inr False \<and>
   productos (snd (eliminar_producto None 7 mundo_dos)) = productos mundo_dos"
proof -
  let ?ops = "[Crear 1 ''widget'' 5 (Finito False ''999'' 1), Agregar None 0,
               Crear 2 ''gadget'' 3 (Finito False ''25'' 1), Agregar None 1]"
  have eq: "mundo_dos = ejecutar ?ops (Inventario_init None None (arranque None))"
    by (simp add: mundo_dos_def)
  have a: "indice_por_id mundo_dos 1 \<noteq> None" by code_simp
  have b: "indice_por_id mundo_dos 7 = None" by code_simp
  have n: "contar_productos mundo_dos = 2" by code_simp
  note T1 = eliminar_producto_contrato
      [where ops = ?ops and es_leer = None and es_crear = None and ?w0.0 = "arranque None"
         and k = 1 and es = None and es' = None and n = 0 and x = NaN,
       unfolded eq [symmetric] Let_def]
  note T7 = eliminar_producto_contrato
      [where ops = ?ops and es_leer = None and es_crear = None and ?w0.0 = "arranque None"
         and k = 7 and es = None and es' = None and n = 0 and x = NaN,
       unfolded eq [symmetric] Let_def]
  from a T1 have 1: "fst (eliminar_producto None 1 mundo_dos) = Inr True \<and>
   contar_productos (snd (eliminar_producto None 1 mundo_dos)) + 1 = contar_productos mundo_dos \<and>
   indice_por_id (snd (eliminar_producto None 1 mundo_dos)) 1 = None"
    by (cases "eliminar_producto None 1 mundo_dos") auto
  from b T7 have 7: "fst (eliminar_producto None 7 mundo_dos) = Inr False \<and>
   productos (snd (eliminar_producto None 7 mundo_dos)) = productos mundo_dos"
    by (cases "eliminar_producto None 7 mundo_dos") auto
  from a b n 1 7 show ?thesis by blast
qed

text \<open>
  C6. The constructor raises exactly when the id is not positive, the quantity is
  negative or the price is below zero, and then no object is created; otherwise the new
  object carries the name stripped and title-cased. Assigning a negative quantity or
  price raises and leaves the state as it was (and the inventory's update returns
  \<^verbatim>\<open>False\<close> with objects and file unchanged). No sequence of calls changes the name
  or the id of an existing object.
\<close>

theorem producto_validacion:
  "((\<exists>e. Producto_init i nom c p = Inl e) \<longleftrightarrow> (i \<le> 0 \<or> c < 0 \<or> menor_que_cero p)) \<and>
   (i \<le> 0 \<or> c < 0 \<or> menor_que_cero p \<longrightarrow>
      (\<exists>e. Producto i nom c p w = (Inl e, w))) \<and>
   (0 < i \<and> 0 \<le> c \<and> \<not> menor_que_cero p \<longrightarrow>
      Producto_init i nom c p =
        Inr \<lparr>id_producto = i, nombre = py_title (py_strip nom), cantidad = c, precio = p\<rparr>) \<and>
   (n < 0 \<longrightarrow> asignar_cantidad r n w = (Inl (ValueError CantidadNegativa), w) \<and>
              \<not> fst (actualizar_cantidad es k n w) \<and>
              objetos (snd (actualizar_cantidad es k n w)) = objetos w \<and>
              archivo (snd (actualizar_cantidad es k n w)) = archivo w) \<and>
   (menor_que_cero x \<longrightarrow> asignar_precio r x w = (Inl (ValueError PrecioNegativo), w) \<and>
              \<not> fst (actualizar_precio es k x w) \<and>
              objetos (snd (actualizar_precio es k x w)) = objetos w \<and>
              archivo (snd (actualizar_precio es k x w)) = archivo w) \<and>
   (r < length (objetos w) \<longrightarrow>
      r < length (objetos (ejecutar ops w)) \<and>
      nombre (objetos (ejecutar ops w) ! r) = nombre (objetos w ! r) \<and>
      id_producto (objetos (ejecutar ops w) ! r) = id_producto (objetos w ! r))"
proof -
  have 1: "(\<exists>e. Producto_init i nom c p = Inl e) \<longleftrightarrow> (i \<le> 0 \<or> c < 0 \<or> menor_que_cero p)"
    by (auto simp: Producto_init_def)
  have 2: "\<exists>e. Producto i nom c p w = (Inl e, w)" if "i \<le> 0 \<or> c < 0 \<or> menor_que_cero p"
    using that by (auto simp: Producto_def Producto_init_def)
  have 3: "Producto_init i nom c p =
        Inr \<lparr>id_producto = i, nombre = py_title (py_strip nom), cantidad = c, precio = p\<rparr>"
    if "0 < i \<and> 0 \<le> c \<and> \<not> menor_que_cero p"
    using that by (simp add: Producto_init_def)
  have 4: "asignar_cantidad r n w = (Inl (ValueError CantidadNegativa), w) \<and>
              \<not> fst (actualizar_cantidad es k n w) \<and>
              objetos (snd (actualizar_cantidad es k n w)) = objetos w \<and>
              archivo (snd (actualizar_cantidad es k n w)) = archivo w" if "n < 0"
    using that
    by (cases "indice_por_id w k")
       (simp_all add: asignar_cantidad_def cantidad_setter_def actualizar_cantidad_def)
  have 5: "asignar_precio r x w = (Inl (ValueError PrecioNegativo), w) \<and>
              \<not> fst (actualizar_precio es k x w) \<and>
              objetos (snd (actualizar_precio es k x w)) = objetos w \<and>
              archivo (snd (actualizar_precio es k x w)) = archivo w" if "menor_que_cero x"
    using that
    by (cases "indice_por_id w k")
       (simp_all add: asignar_precio_def precio_setter_def actualizar_precio_def)
  have 6: "r < length (objetos (ejecutar ops w)) \<and>
      nombre (objetos (ejecutar ops w) ! r) = nombre (objetos w ! r) \<and>
      id_producto (objetos (ejecutar ops w) ! r) = id_producto (objetos w ! r)"
    if "r < length (objetos w)"
    using conserva_ejecutar [of w ops] that unfolding conserva_def by auto
  from 1 2 3 4 5 6 show ?thesis by blast
qed

theorem producto_validacion_witness:
  "(\<exists>e. Producto_init 0 ''x'' 1 NaN = Inl e) \<and>
   (\<exists>e. Producto 0 ''x'' 1 NaN mundo_widget = (Inl e, mundo_widget)) \<and>
   Producto_init 1 '' laptop hp '' 0 NaN =
     Inr \<lparr>id_producto = 1, nombre = ''Laptop Hp'', cantidad = 0, precio = NaN\<rparr> \<and>
   asignar_cantidad 0 (- 1) mundo_widget = (Inl (ValueError CantidadNegativa), mundo_widget) \<and>
   menor_que_cero (Finito True ''5'' 1) \<and>
   asignar_precio 0 (Finito True ''5'' 1) mundo_widget =
     (Inl (ValueError PrecioNegativo), mundo_widget) \<and>
   0 < length (objetos mundo_widget) \<and>
   nombre (objetos (ejecutar [ActualizarCantidad None 1 9, Eliminar None 1] mundo_widget) ! 0) =
     ''Widget''"
proof -
  note T = producto_validacion [where i = 0 and nom = "''x''" and c = 1 and p = NaN and w = mundo_widget
      and n = "- 1" and x = "Finito True ''5'' 1" and r = 0
      and ops = "[ActualizarCantidad None 1 9, Eliminar None 1]"]
  note U = producto_validacion [where i = 1 and nom = "'' laptop hp ''" and c = 0 and p = NaN]
  have neg: "menor_que_cero (Finito True ''5'' 1)" by code_simp
  have nan: "\<not> menor_que_cero NaN" by code_simp
  have len: "0 < length (objetos mundo_widget)" by code_simp
  have nom: "nombre (objetos mundo_widget ! 0) = ''Widget''" by code_simp
  have tit: "py_title (py_strip '' laptop hp '') = ''Laptop Hp''" by code_simp
  from T have 1: "\<exists>e. Producto_init 0 ''x'' 1 NaN = Inl e" by simp
  from T have 2: "\<exists>e. Producto 0 ''x'' 1 NaN mundo_widget = (Inl e, mundo_widget)" by simp
  from U nan tit have 3: "Producto_init 1 '' laptop hp '' 0 NaN =
     Inr \<lparr>id_producto = 1, nombre = ''Laptop Hp'', cantidad = 0, precio = NaN\<rparr>" by simp
  from T have 4: "asignar_cantidad 0 (- 1) mundo_widget =
     (Inl (ValueError CantidadNegativa), mundo_widget)" by simp
  from T neg have 5: "asignar_precio 0 (Finito True ''5'' 1) mundo_widget =
     (Inl (ValueError PrecioNegativo), mundo_widget)" by blast
  from T len nom have 6:
    "nombre (objetos (ejecutar [ActualizarCantidad None 1 9, Eliminar None 1] mundo_widget) ! 0) =
     ''Widget''" by metis
  from 1 2 3 4 neg 5 len 6 show ?thesis by blast
qed

text \<open>
  C9. As stated the claim fails: when the write fails the caller is told nothing. With
  the save failing, \<^verbatim>\<open>agregar_producto\<close> returns \<^verbatim>\<open>True\<close>, exactly as when the save
  succeeds, although the file is not the one a successful save leaves.
\<close>

theorem guardado_fallido_contraejemplo:
  "fst (agregar_producto (Some (PermissionError, AlAbrir)) 1 mundo_widget) =
     fst (agregar_producto None 1 mundo_widget) \<and>
   fst (agregar_producto (Some (PermissionError, AlAbrir)) 1 mundo_widget) \<and>
   archivo (snd (agregar_producto (Some (PermissionError, AlAbrir)) 1 mundo_widget)) \<noteq>
     archivo (snd (agregar_producto None 1 mundo_widget))"
  by code_simp

text \<open>
  C9, amended. When the write after a mutation fails, at whatever moment and with
  either error, \<^verbatim>\<open>_guardar_en_archivo\<close> prints an error message and the operation still
  returns \<^verbatim>\<open>True\<close>, followed by its usual message. The change made in memory (list,
  map, object) is kept, and the file is what the failed write left: its old contents when
  it could not be opened, a leading part of the new snapshot otherwise.
\<close>

theorem guardado_fallido:
  "(indice_por_id w (id_producto (objetos w ! r)) = None \<longrightarrow>
      (case agregar_producto (Some (f, m)) r w of
         (ok, w') \<Rightarrow>
           ok \<and> productos w' = productos w @ [r] \<and>
           indice_por_id w' = (indice_por_id w)(id_producto (objetos w ! r) \<mapsto> r) \<and>
           objetos w' = objetos w \<and>
           archivo w' = (case m of AlAbrir \<Rightarrow> archivo w | AlEscribir j \<Rightarrow> Some (take j (instantanea w'))) \<and>
           consola w' = consola w @ [aviso_guardar f,
             OkAgregado (nombre (objetos w ! r)) (id_producto (objetos w ! r))])) \<and>
   (indice_por_id w k = Some r \<and> r \<in> set (productos w) \<longrightarrow>
      (case eliminar_producto (Some (f, m)) k w of
         (res, w') \<Rightarrow>
           res = Inr True \<and> productos w' = remove1 r (productos w) \<and>
           indice_por_id w' = (indice_por_id w)(k := None) \<and>
           objetos w' = objetos w \<and>
           archivo w' = (case m of AlAbrir \<Rightarrow> archivo w | AlEscribir j \<Rightarrow> Some (take j (instantanea w'))) \<and>
           consola w' = consola w @ [aviso_guardar f, OkEliminado (nombre (objetos w ! r)) k])) \<and>
   (indice_por_id w k = Some r \<and> 0 \<le> n \<longrightarrow>
      (case actualizar_cantidad (Some (f, m)) k n w of
         (ok, w') \<Rightarrow>
           ok \<and> objetos w' = (objetos w)[r := (objetos w ! r)\<lparr>cantidad := n\<rparr>] \<and>
           productos w' = productos w \<and> indice_por_id w' = indice_por_id w \<and>
           archivo w' = (case m of AlAbrir \<Rightarrow> archivo w | AlEscribir j \<Rightarrow> Some (take j (instantanea w'))) \<and>
           consola w' = consola w @ [aviso_guardar f, OkCantidad r])) \<and>
   (indice_por_id w k = Some r \<and> \<not> menor_que_cero x \<longrightarrow>
      (case actualizar_precio (Some (f, m)) k x w of
         (ok, w') \<Rightarrow>
           ok \<and> objetos w' = (objetos w)[r := (objetos w ! r)\<lparr>precio := x\<rparr>] \<and>
           productos w' = productos w \<and> indice_por_id w' = indice_por_id w \<and>
           archivo w' = (case m of AlAbrir \<Rightarrow> archivo w | AlEscribir j \<Rightarrow> Some (take j (instantanea w'))) \<and>
           consola w' = consola w @ [aviso_guardar f, OkPrecio r]))"
proof -
  have i: "instantanea (print e v) = instantanea v"
    "instantanea (guardar_en_archivo es v) = instantanea v" for e es v
    by (simp_all add: instantanea_def)
  have g: "archivo (guardar_en_archivo (Some (f, m)) v) =
             (case m of AlAbrir \<Rightarrow> archivo v | AlEscribir j \<Rightarrow> Some (take j (instantanea v)))"
    "consola (guardar_en_archivo (Some (f, m)) v) = consola v @ [aviso_guardar f]" for v
    by (cases m; simp add: guardar_en_archivo_def print_def archivo_tras_fallo_def)+
  have a: "indice_por_id w (id_producto (objetos w ! r)) = None \<longrightarrow>
      (case agregar_producto (Some (f, m)) r w of
         (ok, w') \<Rightarrow>
           ok \<and> productos w' = productos w @ [r] \<and>
           indice_por_id w' = (indice_por_id w)(id_producto (objetos w ! r) \<mapsto> r) \<and>
           objetos w' = objetos w \<and>
           archivo w' = (case m of AlAbrir \<Rightarrow> archivo w | AlEscribir j \<Rightarrow> Some (take j (instantanea w'))) \<and>
           consola w' = consola w @ [aviso_guardar f,
             OkAgregado (nombre (objetos w ! r)) (id_producto (objetos w ! r))])"
    by (simp add: agregar_producto_def Let_def g i instantanea_def split: momento.splits)
  have e: "indice_por_id w k = Some r \<and> r \<in> set (productos w) \<longrightarrow>
      (case eliminar_producto (Some (f, m)) k w of
         (res, w') \<Rightarrow>
           res = Inr True \<and> productos w' = remove1 r (productos w) \<and>
           indice_por_id w' = (indice_por_id w)(k := None) \<and>
           objetos w' = objetos w \<and>
           archivo w' = (case m of AlAbrir \<Rightarrow> archivo w | AlEscribir j \<Rightarrow> Some (take j (instantanea w'))) \<and>
           consola w' = consola w @ [aviso_guardar f, OkEliminado (nombre (objetos w ! r)) k])"
    by (simp add: eliminar_producto_def Let_def g i instantanea_def split: momento.splits)
  have c: "indice_por_id w k = Some r \<and> 0 \<le> n \<longrightarrow>
      (case actualizar_cantidad (Some (f, m)) k n w of
         (ok, w') \<Rightarrow>
           ok \<and> objetos w' = (objetos w)[r := (objetos w ! r)\<lparr>cantidad := n\<rparr>] \<and>
           productos w' = productos w \<and> indice_por_id w' = indice_por_id w \<and>
           archivo w' = (case m of AlAbrir \<Rightarrow> archivo w | AlEscribir j \<Rightarrow> Some (take j (instantanea w'))) \<and>
           consola w' = consola w @ [aviso_guardar f, OkCantidad r])"
    by (simp add: actualizar_cantidad_def asignar_cantidad_def cantidad_setter_def Let_def
          g i instantanea_def split: momento.splits)
  have p: "indice_por_id w k = Some r \<and> \<not> menor_que_cero x \<longrightarrow>
      (case actualizar_precio (Some (f, m)) k x w of
         (ok, w') \<Rightarrow>
           ok \<and> objetos w' = (objetos w)[r := (objetos w ! r)\<lparr>precio := x\<rparr>] \<and>
           productos w' = productos w \<and> indice_por_id w' = indice_por_id w \<and>
           archivo w' = (case m of AlAbrir \<Rightarrow> archivo w | AlEscribir j \<Rightarrow> Some (take j (instantanea w'))) \<and>
           consola w' = consola w @ [aviso_guardar f, OkPrecio r])"
    by (simp add: actualizar_precio_def asignar_precio_def precio_setter_def Let_def
          g i instantanea_def split: momento.splits)
  from a e c p show ?thesis by blast
qed

theorem guardado_fallido_witness:
  "indice_por_id mundo_widget (id_producto (objetos mundo_widget ! 1)) = None \<and>
   fst (agregar_producto (Some (OSError, AlEscribir 4)) 1 mundo_widget) \<and>
   productos (snd (agregar_producto (Some (OSError, AlEscribir 4)) 1 mundo_widget)) = [0, 1] \<and>
   archivo (snd (agregar_producto (Some (OSError, AlEscribir 4)) 1 mundo_widget)) =
     Some ''1|Wi'' \<and>
   indice_por_id mundo_widget 1 = Some 0 \<and> 0 \<in> set (productos mundo_widget) \<and>
   productos (snd (eliminar_producto (Some (OSError, AlAbrir)) 1 mundo_widget)) = [] \<and>
   archivo (snd (eliminar_producto (Some (OSError, AlAbrir)) 1 mundo_widget)) =
     archivo mundo_widget \<and>
   fst (actualizar_cantidad (Some (OSError, AlAbrir)) 1 7 mundo_widget) \<and>
   cantidad (objetos (snd (actualizar_cantidad (Some (OSError, AlAbrir)) 1 7 mundo_widget)) ! 0)
     = 7 \<and>
   archivo (snd (actualizar_cantidad (Some (OSError, AlAbrir)) 1 7 mundo_widget)) =
     archivo mundo_widget \<and>
   fst (actualizar_precio (Some (PermissionError, AlAbrir)) 1 NaN mundo_widget) \<and>
   archivo (snd (actualizar_precio (Some (PermissionError, AlAbrir)) 1 NaN mundo_widget)) =
     archivo mundo_widget"
proof -
  note T = guardado_fallido [where f = OSError and m = "AlEscribir 4" and w = mundo_widget
      and r = 1]
  note U = guardado_fallido [where f = OSError and m = AlAbrir and w = mundo_widget
      and r = 0 and k = 1 and n = 7]
  note V = guardado_fallido [where f = PermissionError and m = AlAbrir and w = mundo_widget
      and r = 0 and k = 1 and x = NaN]
  have h1: "indice_por_id mundo_widget (id_producto (objetos mundo_widget ! 1)) = None"
    by code_simp
  have h2: "indice_por_id mundo_widget 1 = Some 0" by code_simp
  have h3: "productos mundo_widget = [0]" by code_simp
  have h4: "\<not> menor_que_cero NaN" by code_simp
  have h5: "objetos mundo_widget \<noteq> []" by code_simp
  have h6: "archivo (snd (agregar_producto (Some (OSError, AlEscribir 4)) 1 mundo_widget)) =
     Some ''1|Wi''" by code_simp
  from T h1 h3 have 1:
    "fst (agregar_producto (Some (OSError, AlEscribir 4)) 1 mundo_widget) \<and>
     productos (snd (agregar_producto (Some (OSError, AlEscribir 4)) 1 mundo_widget)) = [0, 1]"
    by (cases "agregar_producto (Some (OSError, AlEscribir 4)) 1 mundo_widget") auto
  from U h2 h3 have 2:
    "productos (snd (eliminar_producto (Some (OSError, AlAbrir)) 1 mundo_widget)) = [] \<and>
     archivo (snd (eliminar_producto (Some (OSError, AlAbrir)) 1 mundo_widget)) =
       archivo mundo_widget"
    by (cases "eliminar_producto (Some (OSError, AlAbrir)) 1 mundo_widget") auto
  from U h2 h5 have 3:
    "fst (actualizar_cantidad (Some (OSError, AlAbrir)) 1 7 mundo_widget) \<and>
     cantidad (objetos (snd (actualizar_cantidad (Some (OSError, AlAbrir)) 1 7 mundo_widget)) ! 0)
       = 7 \<and>
     archivo (snd (actualizar_cantidad (Some (OSError, AlAbrir)) 1 7 mundo_widget)) =
       archivo mundo_widget"
    by (cases "actualizar_cantidad (Some (OSError, AlAbrir)) 1 7 mundo_widget") auto
  from V h2 h4 have 4:
    "fst (actualizar_precio (Some (PermissionError, AlAbrir)) 1 NaN mundo_widget) \<and>
     archivo (snd (actualizar_precio (Some (PermissionError, AlAbrir)) 1 NaN mundo_widget)) =
       archivo mundo_widget"
    by (cases "actualizar_precio (Some (PermissionError, AlAbrir)) 1 NaN mundo_widget") auto
  from h1 h2 h3 h4 h6 1 2 3 4 show ?thesis by simp
qed






end
